theory Spec2Isabelle
  imports Main
begin

section \<open>Task registry (app/services/task_manager.py)\<close>

text \<open>
  The module keeps three dictionaries keyed by the task identifier: the log queues, the
  results and the statuses. They are the fields of one registry record; every function
  of the module takes the registry and returns the updated one.
\<close>

datatype TaskStatus = PENDING | RUNNING | COMPLETED | ERROR

record log_entry =
  log_level :: string
  log_message :: string
  log_timestamp :: string

text \<open>One scraped row of a listing page: the dictionary built by the scrape functions.\<close>

record item =
  item_id :: string
  title :: string
  course :: string
  deadline :: string
  days_remaining :: "int option"
  status :: string
  url :: "string option"

record scrape_result =
  assignments :: "item list"
  quizzes :: "item list"
  timestamp :: string
  success :: bool
  message :: string

text \<open>
  A stored result is either the dictionary returned by the scraper or a dictionary that
  holds a message only.
\<close>

datatype task_result = ScrapeData scrape_result | MessageOnly string

record registry =
  task_queues :: "string \<rightharpoonup> log_entry list"
  task_results :: "string \<rightharpoonup> task_result"
  task_statuses :: "string \<rightharpoonup> TaskStatus"

text \<open>
  \<open>create_scraper_task\<close>: the identifier is drawn by \<open>uuid.uuid4()\<close>; the model takes the
  drawn identifier as an argument.
\<close>

definition create_scraper_task :: "registry \<Rightarrow> string \<Rightarrow> string \<times> registry" where
  "create_scraper_task reg task_id =
     (task_id,
      reg\<lparr>task_queues := (task_queues reg)(task_id \<mapsto> []),
          task_statuses := (task_statuses reg)(task_id \<mapsto> PENDING)\<rparr>)"

text \<open>
  The writes a run performs on the registry, one per assignment or \<open>put\<close> of the source,
  in program order.
\<close>

datatype reg_write =
    SetStatus string TaskStatus
  | SetResult string task_result
  | PutLog string log_entry

fun apply_write :: "registry \<Rightarrow> reg_write \<Rightarrow> registry" where
  "apply_write reg (SetStatus t s) = reg\<lparr>task_statuses := (task_statuses reg)(t \<mapsto> s)\<rparr>"
| "apply_write reg (SetResult t r) = reg\<lparr>task_results := (task_results reg)(t \<mapsto> r)\<rparr>"
| "apply_write reg (PutLog t e) =
     (case task_queues reg t of
        None \<Rightarrow> reg
      | Some q \<Rightarrow> reg\<lparr>task_queues := (task_queues reg)(t \<mapsto> q @ [e])\<rparr>)"

text \<open>The registry after each write: the states a poller can observe, oldest first.\<close>

fun states :: "registry \<Rightarrow> reg_write list \<Rightarrow> registry list" where
  "states reg [] = [reg]"
| "states reg (w # ws) = reg # states (apply_write reg w) ws"

text \<open>
  The call of \<open>run_dulms_scraper\<close> inside the \<open>try\<close> block either returns its result
  dictionary or raises; \<open>Raised e\<close> carries \<open>str(e)\<close>.
\<close>

datatype scraper_outcome = Returned scrape_result | Raised string

text \<open>
  \<open>run_scraper_task\<close> as the list of its writes. \<open>now\<close> is the value of
  \<open>datetime.now().isoformat()\<close> used for the log entry.
\<close>

definition run_scraper_task_writes ::
  "registry \<Rightarrow> string \<Rightarrow> scraper_outcome \<Rightarrow> string \<Rightarrow> reg_write list" where
  "run_scraper_task_writes reg task_id outcome now =
     (case task_queues reg task_id of
        None \<Rightarrow>
          [SetStatus task_id ERROR,
           SetResult task_id (MessageOnly ''Log queue not found'')]
      | Some log_queue \<Rightarrow>
          SetStatus task_id RUNNING #
          (case outcome of
             Returned result_data \<Rightarrow>
               SetResult task_id (ScrapeData result_data) #
               (if success result_data then
                  [SetStatus task_id COMPLETED,
                   PutLog task_id
                     \<lparr>log_level = ''INFO'',
                      log_message = ''Scraping task completed successfully'',
                      log_timestamp = now\<rparr>]
                else
                  [SetStatus task_id ERROR,
                   PutLog task_id
                     \<lparr>log_level = ''ERROR'',
                      log_message = ''Scraping task failed: '' @ message result_data,
                      log_timestamp = now\<rparr>])
           | Raised e \<Rightarrow>
               [SetStatus task_id ERROR,
                SetResult task_id (MessageOnly (''An error occurred: '' @ e)),
                PutLog task_id
                  \<lparr>log_level = ''ERROR'',
                   log_message = ''Scraping task failed with exception: '' @ e,
                   log_timestamp = now\<rparr>]))"

definition run_scraper_task ::
  "registry \<Rightarrow> string \<Rightarrow> scraper_outcome \<Rightarrow> string \<Rightarrow> registry" where
  "run_scraper_task reg task_id outcome now =
     last (states reg (run_scraper_task_writes reg task_id outcome now))"

definition get_task_status :: "registry \<Rightarrow> string \<Rightarrow> TaskStatus option" where
  "get_task_status reg task_id = task_statuses reg task_id"

definition get_task_result :: "registry \<Rightarrow> string \<Rightarrow> task_result option" where
  "get_task_result reg task_id = task_results reg task_id"

text \<open>
  The loop of \<open>get_task_logs\<close>: while the queue is not empty, take its oldest entry and
  append it to \<open>logs\<close>.
\<close>

fun drain :: "log_entry list \<Rightarrow> log_entry list \<Rightarrow> log_entry list \<times> log_entry list" where
  "drain logs [] = (logs, [])"
| "drain logs (e # q) = drain (logs @ [e]) q"

definition get_task_logs :: "registry \<Rightarrow> string \<Rightarrow> bool \<Rightarrow> log_entry list \<times> registry" where
  "get_task_logs reg task_id clear =
     (case task_queues reg task_id of
        None \<Rightarrow> ([], reg)
      | Some log_queue \<Rightarrow>
          (case drain [] log_queue of
             (logs, q') \<Rightarrow> (logs, reg\<lparr>task_queues := (task_queues reg)(task_id \<mapsto> q')\<rparr>)))"

text \<open>What a poller reads for one task: its status and whether a result is stored.\<close>

definition observe :: "string \<Rightarrow> registry \<Rightarrow> TaskStatus option \<times> bool" where
  "observe task_id reg = (get_task_status reg task_id, get_task_result reg task_id \<noteq> None)"

definition empty_registry :: registry where
  "empty_registry = \<lparr>task_queues = Map.empty, task_results = Map.empty, task_statuses = Map.empty\<rparr>"

section \<open>Settings (app/config/settings.py)\<close>

text \<open>
  The three integers are read from the environment with \<open>int(os.getenv(...))\<close>, so they
  are fields of a record and may hold any integer; the addresses are constants.
\<close>

record settings =
  DEADLINE_THRESHOLD_DAYS :: int
  MAX_LOGIN_RETRIES :: int
  CAPTCHA_SOLVE_RETRIES :: int

definition default_settings :: settings where
  "default_settings =
     \<lparr>DEADLINE_THRESHOLD_DAYS = 3, MAX_LOGIN_RETRIES = 3, CAPTCHA_SOLVE_RETRIES = 3\<rparr>"

definition LOGIN_URL :: string where
  "LOGIN_URL = ''https://dulms.deltauniv.edu.eg/Login.aspx''"

definition QUIZZES_URL :: string where
  "QUIZZES_URL = ''https://dulms.deltauniv.edu.eg/Quizzes/StudentQuizzes''"

definition ASSIGNMENTS_URL :: string where
  "ASSIGNMENTS_URL = ''https://dulms.deltauniv.edu.eg/Assignment/AssignmentStudentList''"

definition LOGIN_SUCCESS_URL_PART :: string where
  "LOGIN_SUCCESS_URL_PART = ''Profile/StudentProfile''"

section \<open>String operations of the Python library\<close>

text \<open>
  Strings are byte strings; the operations below act on the ASCII range, which is all
  the constants of the program they are compared with contain.
\<close>

fun startswith :: "string \<Rightarrow> string \<Rightarrow> bool" where
  "startswith s [] = True"
| "startswith [] (p # ps) = False"
| "startswith (c # cs) (p # ps) = (c = p \<and> startswith cs ps)"

text \<open>\<open>str_contains sub s\<close> is Python's \<open>sub in s\<close>.\<close>

fun str_contains :: "string \<Rightarrow> string \<Rightarrow> bool" where
  "str_contains sub [] = (sub = [])"
| "str_contains sub (c # cs) = (startswith (c # cs) sub \<or> str_contains sub cs)"

definition lower_char :: "char \<Rightarrow> char" where
  "lower_char c =
     (let n = (of_char c :: nat) in if 65 \<le> n \<and> n \<le> 90 then char_of (n + 32) else c)"

definition lower :: "string \<Rightarrow> string" where
  "lower s = map lower_char s"

definition is_space :: "char \<Rightarrow> bool" where
  "is_space c = (let n = (of_char c :: nat) in (9 \<le> n \<and> n \<le> 13) \<or> (28 \<le> n \<and> n \<le> 32))"

definition strip :: "string \<Rightarrow> string" where
  "strip s = rev (dropWhile is_space (rev (dropWhile is_space s)))"

fun str_nat :: "nat \<Rightarrow> string" where
  "str_nat n = (if n < 10 then [char_of (48 + n)] else str_nat (n div 10) @ [char_of (48 + n mod 10)])"

declare str_nat.simps [simp del]

definition str_int :: "int \<Rightarrow> string" where
  "str_int i = (if i < 0 then CHR ''-'' # str_nat (nat (- i)) else str_nat (nat i))"

section \<open>Login (app/services/scraper.py, login_to_dulms)\<close>

text \<open>
  What the browser and the solving service answer during one pass of the CAPTCHA loop:
  the image returned by \<open>get_captcha_image\<close>, the text returned by \<open>solve_captcha\<close>
  (\<open>None\<close> when it failed), an exception raised while the solution is entered, the
  form submitted and the address read, the address after the click, the \<open>lblMessage\<close>
  element (whether it is displayed, and its text) when \<open>safe_find_element\<close> finds it,
  and an exception raised while that element is read.
\<close>

record attempt_page =
  captcha_img :: "string option"
  captcha_solution :: "string option"
  form_fault :: "string option"
  current_url :: string
  error_msg :: "(bool \<times> string) option"
  message_fault :: "string option"

text \<open>
  The login page: an exception raised before the loop (loading the page, finding and
  filling the two credential fields), and the answers at each pass, by pass number.
\<close>

record login_page =
  page_fault :: "string option"
  attempt_page :: "nat \<Rightarrow> attempt_page"

text \<open>
  The value returned by \<open>login_to_dulms\<close>, with the number of passes of the loop that
  were started and the number of calls of the solving service.
\<close>

record login_result =
  login_ok :: bool
  attempts :: nat
  solver_calls :: nat

fun captcha_loop :: "(nat \<Rightarrow> attempt_page) \<Rightarrow> nat \<Rightarrow> login_result \<Rightarrow> login_result" where
  "captcha_loop page 0 st = st"
| "captcha_loop page (Suc k) st =
     (let pg = page (attempts st);
          st1 = st\<lparr>attempts := Suc (attempts st)\<rparr>
      in case captcha_img pg of
           None \<Rightarrow> captcha_loop page k st1
         | Some img \<Rightarrow>
             (let st2 = st1\<lparr>solver_calls := Suc (solver_calls st1)\<rparr>
              in case captcha_solution pg of
                   None \<Rightarrow> captcha_loop page k st2
                 | Some sol \<Rightarrow>
                     if sol = [] then captcha_loop page k st2
                     else (case form_fault pg of
                             Some e \<Rightarrow> st2
                           | None \<Rightarrow>
                               if str_contains LOGIN_SUCCESS_URL_PART (current_url pg)
                               then st2\<lparr>login_ok := True\<rparr>
                               else (case error_msg pg of
                                       None \<Rightarrow> captcha_loop page k st2
                                     | Some (displayed, txt) \<Rightarrow>
                                         (case message_fault pg of
                                            Some e \<Rightarrow> st2
                                          | None \<Rightarrow>
                                              if displayed then
                                                (if str_contains ''CAPTCHA'' txt
                                                 then captcha_loop page k st2
                                                 else st2)
                                              else captcha_loop page k st2)))))"

definition login_to_dulms :: "settings \<Rightarrow> login_page \<Rightarrow> login_result" where
  "login_to_dulms cfg lp =
     (case page_fault lp of
        Some e \<Rightarrow> \<lparr>login_ok = False, attempts = 0, solver_calls = 0\<rparr>
      | None \<Rightarrow>
          captcha_loop (attempt_page lp) (nat (CAPTCHA_SOLVE_RETRIES cfg))
            \<lparr>login_ok = False, attempts = 0, solver_calls = 0\<rparr>)"

text \<open>A pass that ends the login with success.\<close>

definition attempt_succeeds :: "attempt_page \<Rightarrow> bool" where
  "attempt_succeeds pg =
     (captcha_img pg \<noteq> None \<and> captcha_solution pg \<noteq> None \<and> captcha_solution pg \<noteq> Some []
      \<and> form_fault pg = None \<and> str_contains LOGIN_SUCCESS_URL_PART (current_url pg))"

section \<open>Listing pages (scrape_assignments, scrape_quizzes)\<close>

text \<open>
  A table cell holds its text and, when \<open>safe_find_element\<close> finds a link in it, the text
  and the \<open>href\<close> attribute of that link. A table row is its list of cells, or a row
  whose extraction raises (a stale element, say).
\<close>

record cell =
  cell_text :: string
  cell_link :: "(string \<times> string option) option"

datatype row = Row "cell list" | RowFault string

text \<open>
  A listing page: an exception raised while the page is loaded or its rows are listed,
  the \<open>tr\<close> elements of the table (\<open>None\<close> when \<open>wait_for_element\<close> gives up), and the
  clock: \<open>days_until s\<close> is \<open>(datetime.strptime(s, "%d/%m/%Y") - now).days\<close>, or \<open>None\<close>
  when \<open>strptime\<close> raises.
\<close>

record listing_page =
  listing_fault :: "string option"
  listing_table :: "row list option"
  days_until :: "string \<Rightarrow> int option"

text \<open>The body of the loop over the rows: the dictionary appended for a row, if any.\<close>

definition row_item :: "(string \<Rightarrow> int option) \<Rightarrow> string \<Rightarrow> row \<Rightarrow> item option" where
  "row_item parse default_url r =
     (case r of
        RowFault e \<Rightarrow> None
      | Row cells \<Rightarrow>
          if length cells < 6 then None
          else
            (let ident = strip (cell_text (cells ! 0));
                 (ttl, link) =
                   (case cell_link (cells ! 1) of
                      Some (link_text, href) \<Rightarrow> (strip link_text, href)
                    | None \<Rightarrow> (strip (cell_text (cells ! 1)), Some default_url));
                 crs = strip (cell_text (cells ! 2));
                 deadline_str = strip (cell_text (cells ! 3));
                 st = strip (cell_text (cells ! 5))
             in Some \<lparr>item_id = ident, title = ttl, course = crs, deadline = deadline_str,
                      days_remaining = parse deadline_str, status = st, url = link\<rparr>))"

fun scrape_rows :: "(string \<Rightarrow> int option) \<Rightarrow> string \<Rightarrow> item list \<Rightarrow> row list \<Rightarrow> item list" where
  "scrape_rows parse default_url acc [] = acc"
| "scrape_rows parse default_url acc (r # rs) =
     (case row_item parse default_url r of
        None \<Rightarrow> scrape_rows parse default_url acc rs
      | Some it \<Rightarrow> scrape_rows parse default_url (acc @ [it]) rs)"

definition scrape_listing :: "string \<Rightarrow> listing_page \<Rightarrow> item list" where
  "scrape_listing default_url pg =
     (case listing_fault pg of
        Some e \<Rightarrow> []
      | None \<Rightarrow>
          (case listing_table pg of
             None \<Rightarrow> []
           | Some trs \<Rightarrow> scrape_rows (days_until pg) default_url [] (drop 1 trs)))"

definition scrape_assignments :: "listing_page \<Rightarrow> item list" where
  "scrape_assignments pg = scrape_listing ASSIGNMENTS_URL pg"

definition scrape_quizzes :: "listing_page \<Rightarrow> item list" where
  "scrape_quizzes pg = scrape_listing QUIZZES_URL pg"

section \<open>Notifications (app/utils/notifications.py)\<close>

record embed =
  embed_title :: string
  embed_description :: string
  embed_color :: int
  embed_url :: "string option"

record payload =
  content :: string
  embeds :: "embed list option"

definition RED :: int where "RED = 0xFF0000"
definition YELLOW :: int where "YELLOW = 0xFFFF00"
definition GREEN :: int where "GREEN = 0x00FF00"

text \<open>
  The colour of one card. Comparing \<open>None\<close> with \<open>1\<close> raises a \<open>TypeError\<close> in Python;
  \<open>Inl\<close> is the raised exception.
\<close>

definition card_color :: "string \<Rightarrow> item \<Rightarrow> string + int" where
  "card_color done_marker a =
     (case days_remaining a of
        None \<Rightarrow> Inl ''TypeError''
      | Some d \<Rightarrow>
          (let color = RED;
               color = (if d > 1 then YELLOW else color);
               color = (if lower (status a) = done_marker then GREEN else color)
           in Inr color))"

definition render_card :: "item \<Rightarrow> int \<Rightarrow> embed" where
  "render_card a color =
     \<lparr>embed_title = title a,
      embed_description =
        ''**Course:** '' @ course a @ [CHR 0x0A] @
        ''**Deadline:** '' @ deadline a @ [CHR 0x0A] @
        ''**Days Remaining:** '' @ (case days_remaining a of None \<Rightarrow> ''None'' | Some d \<Rightarrow> str_int d) @ [CHR 0x0A] @
        ''**Status:** '' @ status a,
      embed_color = color,
      embed_url = url a\<rparr>"

fun format_embeds :: "string \<Rightarrow> embed list \<Rightarrow> item list \<Rightarrow> string + embed list" where
  "format_embeds done_marker acc [] = Inr acc"
| "format_embeds done_marker acc (a # as) =
     (case card_color done_marker a of
        Inl e \<Rightarrow> Inl e
      | Inr color \<Rightarrow> format_embeds done_marker (acc @ [render_card a color]) as)"

definition format_discord_embeds_for_assignments :: "item list \<Rightarrow> string + embed list" where
  "format_discord_embeds_for_assignments xs = format_embeds ''submitted'' [] xs"

definition format_discord_embeds_for_quizzes :: "item list \<Rightarrow> string + embed list" where
  "format_discord_embeds_for_quizzes xs = format_embeds ''completed'' [] xs"

text \<open>
  The answer of \<open>requests.post\<close>: a response with its status code, a
  \<open>RequestException\<close>, or any other exception.
\<close>

datatype post_outcome = Responded int | RequestException string | OtherException string

text \<open>What a run does to the outside world, in order.\<close>

datatype effect =
    InitDriver
  | LoginCall
  | ScrapeAssignments
  | ScrapeQuizzes
  | HttpPost string payload
  | DriverQuit
  | LogError string

text \<open>
  \<open>send_discord_webhook\<close> returns its effects and either the Boolean of the source or,
  as \<open>Inl\<close>, the exception that its \<open>except\<close> clause does not catch.
  \<open>raise_for_status\<close> raises for the codes from 400 to 599.
\<close>

definition send_discord_webhook ::
  "(string \<Rightarrow> payload \<Rightarrow> post_outcome) \<Rightarrow> string \<Rightarrow> string \<Rightarrow> embed list
     \<Rightarrow> effect list \<times> (string + bool)" where
  "send_discord_webhook post webhook_url cont embs =
     (if webhook_url = [] then ([], Inr False)
      else
        (let pl = \<lparr>content = cont, embeds = (if embs = [] then None else Some embs)\<rparr>
         in case post webhook_url pl of
              Responded code \<Rightarrow>
                if 400 \<le> code \<and> code < 600 then ([HttpPost webhook_url pl], Inr False)
                else ([HttpPost webhook_url pl], Inr True)
            | RequestException e \<Rightarrow> ([HttpPost webhook_url pl], Inr False)
            | OtherException e \<Rightarrow> ([HttpPost webhook_url pl], Inl e)))"

section \<open>The scraper run (run_dulms_scraper)\<close>

text \<open>
  Everything outside the program that a run meets: whether \<open>initialize_driver\<close> raises
  (\<open>Some\<close> of the exception text) or returns a driver, the login page, the two listing
  pages, the answer of \<open>requests.post\<close>, and whether \<open>driver.quit()\<close> raises.
\<close>

record scraper_env =
  driver_init :: "string option"
  login :: login_page
  assignments_page :: listing_page
  quizzes_page :: listing_page
  http_post :: "string \<Rightarrow> payload \<Rightarrow> post_outcome"
  driver_quit :: "string option"

text \<open>The banner of the notification; the mark around it is kept as its UTF-8 bytes.\<close>

definition alert_mark :: string where
  "alert_mark = [CHR 0xC3, CHR 0xB0, CHR 0xC5, CHR 0xB8, CHR 0xC5, CHR 0xA1, CHR 0xC2, CHR 0xA8]"

definition alert_content :: string where
  "alert_content = alert_mark @ '' **DULMS Upcoming Deadlines Alert** '' @ alert_mark"

text \<open>
  The list comprehension that keeps the upcoming deadlines: the records \<open>a\<close> of the list
  with \<open>a.get("days_remaining") is not None and a.get("days_remaining") <= deadline_threshold\<close>.
\<close>

definition upcoming :: "int \<Rightarrow> item list \<Rightarrow> item list" where
  "upcoming deadline_threshold xs =
     [a \<leftarrow> xs. days_remaining a \<noteq> None \<and> the (days_remaining a) \<le> deadline_threshold]"

text \<open>
  The block under \<open>if discord_webhook:\<close>. It returns its effects and the exception that
  leaves it, if any.
\<close>

definition notify_upcoming ::
  "settings \<Rightarrow> (string \<Rightarrow> payload \<Rightarrow> post_outcome) \<Rightarrow> string \<Rightarrow> scrape_result
     \<Rightarrow> effect list \<times> string option" where
  "notify_upcoming cfg post discord_webhook result =
     (let deadline_threshold = DEADLINE_THRESHOLD_DAYS cfg;
          upcoming_assignments = upcoming deadline_threshold (assignments result);
          upcoming_quizzes = upcoming deadline_threshold (quizzes result)
      in if upcoming_assignments \<noteq> [] \<or> upcoming_quizzes \<noteq> [] then
           (case (if upcoming_assignments \<noteq> []
                  then format_discord_embeds_for_assignments upcoming_assignments
                  else Inr []) of
              Inl e \<Rightarrow> ([], Some e)
            | Inr cards_a \<Rightarrow>
                (case (if upcoming_quizzes \<noteq> []
                       then format_discord_embeds_for_quizzes upcoming_quizzes
                       else Inr []) of
                   Inl e \<Rightarrow> ([], Some e)
                 | Inr cards_q \<Rightarrow>
                     (case send_discord_webhook post discord_webhook alert_content (cards_a @ cards_q) of
                        (effs, Inl e) \<Rightarrow> (effs, Some e)
                      | (effs, Inr sent) \<Rightarrow> (effs, None))))
         else ([], None))"

text \<open>
  The \<open>try\<close> block: whether a driver was obtained, the effects, the result dictionary as
  it stands when the block is left, and the exception that leaves it, if any.
\<close>

definition scraper_try ::
  "settings \<Rightarrow> scraper_env \<Rightarrow> string option \<Rightarrow> scrape_result
     \<Rightarrow> bool \<times> effect list \<times> scrape_result \<times> string option" where
  "scraper_try cfg env discord_webhook result =
     (case driver_init env of
        Some e \<Rightarrow> (False, [InitDriver], result, Some e)
      | None \<Rightarrow>
          if \<not> login_ok (login_to_dulms cfg (login env)) then
            (True, [InitDriver, LoginCall], result\<lparr>message := ''Failed to login to DULMS''\<rparr>, None)
          else
            (let result = result\<lparr>assignments := scrape_assignments (assignments_page env)\<rparr>;
                 result = result\<lparr>quizzes := scrape_quizzes (quizzes_page env)\<rparr>;
                 result = result\<lparr>success := True, message := ''Scraping completed successfully''\<rparr>;
                 effs = [InitDriver, LoginCall, ScrapeAssignments, ScrapeQuizzes]
             in case discord_webhook of
                  None \<Rightarrow> (True, effs, result, None)
                | Some webhook \<Rightarrow>
                    if webhook = [] then (True, effs, result, None)
                    else (case notify_upcoming cfg (http_post env) webhook result of
                            (sent, raised) \<Rightarrow> (True, effs @ sent, result, raised))))"

text \<open>
  The whole function: the \<open>try\<close> block, the \<open>except Exception\<close> clause that turns an
  exception into a failure result, and the \<open>finally\<close> clause that closes the driver.
\<close>

definition run_dulms_scraper ::
  "settings \<Rightarrow> scraper_env \<Rightarrow> string option \<Rightarrow> string \<Rightarrow> scrape_result \<times> effect list" where
  "run_dulms_scraper cfg env discord_webhook now =
     (case scraper_try cfg env discord_webhook
             \<lparr>assignments = [], quizzes = [], timestamp = now, success = False, message = []\<rparr> of
        (opened, effs, result, raised) \<Rightarrow>
          (let returned =
                 (case raised of
                    None \<Rightarrow> result
                  | Some e \<Rightarrow> result\<lparr>success := False, message := ''Scraper failed with error: '' @ e\<rparr>);
               cleanup =
                 (if opened then
                    (case driver_quit env of
                       None \<Rightarrow> [DriverQuit]
                     | Some e \<Rightarrow> [DriverQuit, LogError (''Error closing WebDriver: '' @ e)])
                  else [])
           in (returned, effs @ cleanup)))"

text \<open>The posts among the effects of a run.\<close>

fun posts :: "effect list \<Rightarrow> (string \<times> payload) list" where
  "posts [] = []"
| "posts (HttpPost u pl # es) = (u, pl) # posts es"
| "posts (e # es) = posts es"

section \<open>Example inputs\<close>

text \<open>Concrete registries, pages and environments on which the results below are run.\<close>

definition info_entry :: log_entry where
  "info_entry = \<lparr>log_level = ''INFO'', log_message = ''Login successful!'', log_timestamp = ''2025-06-01T08:00:01''\<rparr>"

definition error_entry :: log_entry where
  "error_entry = \<lparr>log_level = ''ERROR'', log_message = ''Quizzes table not found'', log_timestamp = ''2025-06-01T08:00:09''\<rparr>"

definition two_logs_registry :: registry where
  "two_logs_registry =
     \<lparr>task_queues = [''t1'' \<mapsto> [info_entry, error_entry]],
      task_results = Map.empty,
      task_statuses = [''t1'' \<mapsto> RUNNING]\<rparr>"

definition done_result :: scrape_result where
  "done_result =
     \<lparr>assignments = [], quizzes = [], timestamp = ''2025-06-01T08:00:00'', success = True,
      message = ''Scraping completed successfully''\<rparr>"

definition captcha_rejected :: attempt_page where
  "captcha_rejected =
     \<lparr>captcha_img = Some ''png'', captcha_solution = Some ''x7k2'', form_fault = None,
      current_url = LOGIN_URL, error_msg = Some (True, ''Invalid CAPTCHA code''),
      message_fault = None\<rparr>"

definition always_rejected :: "nat \<Rightarrow> attempt_page" where
  "always_rejected i = captcha_rejected"

definition rejecting_login :: login_page where
  "rejecting_login = \<lparr>page_fault = None, attempt_page = always_rejected\<rparr>"

definition captcha_accepted :: attempt_page where
  "captcha_accepted =
     \<lparr>captcha_img = Some ''png'', captcha_solution = Some ''x7k2'', form_fault = None,
      current_url = ''https://dulms.deltauniv.edu.eg/Profile/StudentProfile'', error_msg = None,
      message_fault = None\<rparr>"

definition always_accepted :: "nat \<Rightarrow> attempt_page" where
  "always_accepted i = captcha_accepted"

definition accepting_login :: login_page where
  "accepting_login = \<lparr>page_fault = None, attempt_page = always_accepted\<rparr>"

definition no_retry_settings :: settings where
  "no_retry_settings =
     \<lparr>DEADLINE_THRESHOLD_DAYS = 3, MAX_LOGIN_RETRIES = 0, CAPTCHA_SOLVE_RETRIES = 3\<rparr>"

definition text_cell :: "string \<Rightarrow> cell" where
  "text_cell s = \<lparr>cell_text = s, cell_link = None\<rparr>"

definition listing_row :: "string \<Rightarrow> string \<Rightarrow> string \<Rightarrow> string \<Rightarrow> string \<Rightarrow> row" where
  "listing_row ident ttl crs dl st =
     Row [text_cell ident, text_cell ttl, text_cell crs, text_cell dl, text_cell ''-'', text_cell st]"

definition june_clock :: "string \<Rightarrow> int option" where
  "june_clock = map_of [(''02/06/2025'', 1), (''04/06/2025'', 3), (''05/06/2025'', 4), (''20/06/2025'', 19)]"

definition five_assignments :: "row list" where
  "five_assignments =
     [Row [],
      listing_row ''1'' ''Essay'' ''ENG101'' ''02/06/2025'' ''Pending'',
      listing_row ''2'' ''Lab report'' ''PHY102'' ''20/06/2025'' ''Pending'',
      listing_row ''3'' ''Problem set'' ''MAT201'' '' 04/06/2025 '' ''Submitted'',
      listing_row ''4'' ''Reading'' ''HIS110'' ''next week'' ''Pending'',
      listing_row ''5'' ''Project'' ''CSE300'' ''05/06/2025'' ''Pending'']"

definition one_quiz :: "row list" where
  "one_quiz = [Row [], listing_row ''9'' ''Midterm'' ''MAT201'' ''20/06/2025'' ''Not started'']"

definition post_accepts :: "string \<Rightarrow> payload \<Rightarrow> post_outcome" where
  "post_accepts u pl = Responded 204"

definition post_breaks :: "string \<Rightarrow> payload \<Rightarrow> post_outcome" where
  "post_breaks u pl = OtherException ''boom''"

definition scenario_env :: scraper_env where
  "scenario_env =
     \<lparr>driver_init = None, login = accepting_login,
      assignments_page = \<lparr>listing_fault = None, listing_table = Some five_assignments, days_until = june_clock\<rparr>,
      quizzes_page = \<lparr>listing_fault = None, listing_table = Some one_quiz, days_until = june_clock\<rparr>,
      http_post = post_accepts, driver_quit = None\<rparr>"

definition no_driver_env :: scraper_env where
  "no_driver_env = scenario_env\<lparr>driver_init := Some ''WebDriver executable not found at: msedgedriver.exe''\<rparr>"

definition broken_post_env :: scraper_env where
  "broken_post_env = scenario_env\<lparr>http_post := post_breaks, driver_quit := Some ''session gone''\<rparr>"

definition hook :: string where
  "hook = ''https://discord.example/api/webhooks/1''"

definition essay :: "int option \<Rightarrow> string \<Rightarrow> item" where
  "essay d st =
     \<lparr>item_id = ''1'', title = ''Essay'', course = ''ENG101'', deadline = ''02/06/2025'',
      days_remaining = d, status = st, url = None\<rparr>"

definition essay_row :: row where
  "essay_row = listing_row ''1'' ''Essay'' ''ENG101'' ''02/06/2025'' ''Pending''"

definition project_row :: row where
  "project_row = listing_row ''5'' ''Project'' ''CSE300'' ''05/06/2025'' ''Pending''"

definition short_row :: row where
  "short_row = Row [text_cell ''7'', text_cell ''Draft'']"

definition reading_cells :: "cell list" where
  "reading_cells =
     [text_cell ''4'', text_cell ''Reading'', text_cell ''HIS110'', text_cell ''next week'',
      text_cell ''-'', text_cell ''Pending'']"

section \<open>The log queue\<close>

lemma drain_all: "drain logs q = (logs @ q, [])"
  by (induction q arbitrary: logs) simp_all

text \<open>
  Claim C9. \<open>get_task_logs\<close> returns every entry buffered for the task, oldest first, and
  leaves the queue empty, so a second call with no write in between returns the empty
  list.
\<close>

theorem get_task_logs_drains:
  assumes "task_queues reg task_id = Some q"
  shows "fst (get_task_logs reg task_id clear) = q
       \<and> task_queues (snd (get_task_logs reg task_id clear)) task_id = Some []
       \<and> fst (get_task_logs (snd (get_task_logs reg task_id clear)) task_id clear') = []"
  using assms by (simp add: get_task_logs_def drain_all)

theorem get_task_logs_drains_witness:
  "task_queues two_logs_registry ''t1'' = Some [info_entry, error_entry]
   \<and> fst (get_task_logs two_logs_registry ''t1'' False) = [info_entry, error_entry]
   \<and> fst (get_task_logs (snd (get_task_logs two_logs_registry ''t1'' False)) ''t1'' False) = []"
proof -
  have q: "task_queues two_logs_registry ''t1'' = Some [info_entry, error_entry]"
    by (simp add: two_logs_registry_def)
  show ?thesis
    using q get_task_logs_drains [OF q, of False False] by simp
qed

section \<open>The task state machine\<close>

text \<open>
  Claim C10. Run for an identifier that has no log queue, \<open>run_scraper_task\<close> writes the
  status \<open>ERROR\<close> and then the result message "Log queue not found", and nothing else:
  the status never becomes \<open>RUNNING\<close> through this run, no queue is created, and the
  identifier now has a status entry and a result entry.
\<close>

theorem run_scraper_task_unknown_id:
  assumes "task_queues reg task_id = None"
  shows "run_scraper_task_writes reg task_id outcome now =
           [SetStatus task_id ERROR, SetResult task_id (MessageOnly ''Log queue not found'')]
       \<and> map (observe task_id) (states reg (run_scraper_task_writes reg task_id outcome now)) =
           [observe task_id reg, (Some ERROR, task_results reg task_id \<noteq> None), (Some ERROR, True)]
       \<and> get_task_status (run_scraper_task reg task_id outcome now) task_id = Some ERROR
       \<and> get_task_result (run_scraper_task reg task_id outcome now) task_id =
           Some (MessageOnly ''Log queue not found'')
       \<and> task_queues (run_scraper_task reg task_id outcome now) = task_queues reg
       \<and> task_id \<in> dom (task_statuses (run_scraper_task reg task_id outcome now))
       \<and> task_id \<in> dom (task_results (run_scraper_task reg task_id outcome now))"
  using assms
  by (simp add: run_scraper_task_writes_def run_scraper_task_def observe_def
      get_task_status_def get_task_result_def)

theorem run_scraper_task_unknown_id_witness:
  "task_queues empty_registry ''ghost'' = None
   \<and> get_task_status empty_registry ''ghost'' = None
   \<and> get_task_status (run_scraper_task empty_registry ''ghost'' (Returned done_result) ''now'') ''ghost''
        = Some ERROR
   \<and> get_task_result (run_scraper_task empty_registry ''ghost'' (Returned done_result) ''now'') ''ghost''
        = Some (MessageOnly ''Log queue not found'')"
proof -
  have q: "task_queues empty_registry ''ghost'' = None"
    by (simp add: empty_registry_def)
  show ?thesis
    using q run_scraper_task_unknown_id [OF q, of "Returned done_result" "''now''"]
    by (simp add: get_task_status_def empty_registry_def)
qed

text \<open>
  Claim C3. For a task created by \<open>create_scraper_task\<close> and run once, the statuses a
  poller can read, in order and without repetitions, are \<open>PENDING\<close>, \<open>RUNNING\<close> and then
  one of \<open>COMPLETED\<close> and \<open>ERROR\<close>; the run ends in that last status.
\<close>

theorem status_sequence:
  "remdups_adj (map (\<lambda>r. get_task_status r task_id)
      (states (snd (create_scraper_task reg task_id))
         (run_scraper_task_writes (snd (create_scraper_task reg task_id)) task_id outcome now)))
     \<in> {[Some PENDING, Some RUNNING, Some COMPLETED], [Some PENDING, Some RUNNING, Some ERROR]}
   \<and> get_task_status (run_scraper_task (snd (create_scraper_task reg task_id)) task_id outcome now) task_id
     \<in> {Some COMPLETED, Some ERROR}"
  by (cases outcome)
     (simp_all add: create_scraper_task_def run_scraper_task_writes_def run_scraper_task_def
        get_task_status_def)

text \<open>
  Claim C2, as amended. For a task created under a fresh identifier and run once: before
  the run the status is \<open>PENDING\<close> and no result is stored; after the run the status is
  \<open>COMPLETED\<close> or \<open>ERROR\<close> and a result is stored. When \<open>run_dulms_scraper\<close> returns, the
  result is stored while the status is still \<open>RUNNING\<close>, one step before the terminal
  status is written; when it raises, the status \<open>ERROR\<close> is written first and the result
  one step later.
\<close>

theorem result_and_status:
  assumes "task_results reg task_id = None"
  shows "map (observe task_id)
           (states (snd (create_scraper_task reg task_id))
              (run_scraper_task_writes (snd (create_scraper_task reg task_id)) task_id outcome now)) =
         (case outcome of
            Returned r \<Rightarrow>
              [(Some PENDING, False), (Some RUNNING, False), (Some RUNNING, True),
               (Some (if success r then COMPLETED else ERROR), True),
               (Some (if success r then COMPLETED else ERROR), True)]
          | Raised e \<Rightarrow>
              [(Some PENDING, False), (Some RUNNING, False), (Some ERROR, False),
               (Some ERROR, True), (Some ERROR, True)])
       \<and> observe task_id (snd (create_scraper_task reg task_id)) = (Some PENDING, False)
       \<and> observe task_id (run_scraper_task (snd (create_scraper_task reg task_id)) task_id outcome now)
           \<in> {(Some COMPLETED, True), (Some ERROR, True)}"
  using assms
  by (cases outcome)
     (simp_all add: create_scraper_task_def run_scraper_task_writes_def run_scraper_task_def
        observe_def get_task_status_def get_task_result_def)

theorem result_and_status_witness:
  "task_results empty_registry ''t1'' = None
   \<and> map (observe ''t1'')
        (states (snd (create_scraper_task empty_registry ''t1''))
           (run_scraper_task_writes (snd (create_scraper_task empty_registry ''t1'')) ''t1''
              (Returned done_result) ''now'')) =
      [(Some PENDING, False), (Some RUNNING, False), (Some RUNNING, True),
       (Some COMPLETED, True), (Some COMPLETED, True)]"
proof -
  have fresh: "task_results empty_registry ''t1'' = None"
    by (simp add: empty_registry_def)
  show ?thesis
    using fresh result_and_status [OF fresh, of "Returned done_result" "''now''"]
    by (simp add: done_result_def)
qed

text \<open>
  The claim C2 as written fails when the scraper call raises: the third state of the
  run has the status \<open>ERROR\<close> and no stored result.
\<close>

theorem result_and_status_counterexample:
  "observe ''t1''
     (states (snd (create_scraper_task empty_registry ''t1''))
        (run_scraper_task_writes (snd (create_scraper_task empty_registry ''t1'')) ''t1''
           (Raised ''boom'') ''now'') ! 2)
   = (Some ERROR, False)"
  by (simp add: create_scraper_task_def run_scraper_task_writes_def observe_def
      get_task_status_def get_task_result_def empty_registry_def)

section \<open>The CAPTCHA loop\<close>

lemma captcha_loop_attempts_le: "attempts (captcha_loop page k st) \<le> attempts st + k"
proof (induction k arbitrary: st)
  case 0 show ?case by simp
next
  case (Suc k)
  have a: "\<And>s. attempts s = Suc (attempts st) \<Longrightarrow> attempts (captcha_loop page k s) \<le> Suc (attempts st + k)"
    using Suc.IH by (metis add_Suc)
  show ?case
    by (simp add: Let_def a split: option.split prod.split)
qed

lemma captcha_loop_solver_le:
  "solver_calls (captcha_loop page k st) + attempts st \<le> attempts (captcha_loop page k st) + solver_calls st"
proof (induction k arbitrary: st)
  case 0 show ?case by simp
next
  case (Suc k)
  have a: "solver_calls (captcha_loop page k s) + attempts st \<le> attempts (captcha_loop page k s) + solver_calls st"
    if "solver_calls s + attempts st \<le> attempts s + solver_calls st" for s
    using Suc.IH [of s] that by linarith
  show ?case
    by (simp add: Let_def a split: option.split prod.split)
qed

lemma captcha_loop_no_success:
  "\<not> login_ok st \<Longrightarrow>
   (\<forall>i. attempts st \<le> i \<and> i < attempts st + k \<longrightarrow> \<not> attempt_succeeds (page i)) \<Longrightarrow>
   \<not> login_ok (captcha_loop page k st)"
proof (induction k arbitrary: st)
  case 0 then show ?case by simp
next
  case (Suc k)
  have a: "\<not> login_ok (captcha_loop page k s)" if "attempts s = Suc (attempts st)" "\<not> login_ok s" for s
    using Suc.IH [of s] Suc.prems(2) that by simp
  have b: "\<not> attempt_succeeds (page (attempts st))" using Suc.prems(2) by simp
  show ?case
  proof (cases "str_contains LOGIN_SUCCESS_URL_PART (current_url (page (attempts st)))")
    case True
    with b have "captcha_img (page (attempts st)) = None \<or> captcha_solution (page (attempts st)) = None
       \<or> captcha_solution (page (attempts st)) = Some [] \<or> form_fault (page (attempts st)) \<noteq> None"
      by (simp add: attempt_succeeds_def)
    then show ?thesis using Suc.prems(1)
      by (elim disjE) (auto simp: Let_def a split: option.split prod.split)
  next
    case False
    then show ?thesis using Suc.prems(1)
      by (simp add: Let_def a split: option.split prod.split)
  qed
qed

lemma rejected_never_succeeds: "\<not> attempt_succeeds (always_rejected i)"
  by (simp add: attempt_succeeds_def always_rejected_def captcha_rejected_def
      LOGIN_SUCCESS_URL_PART_def LOGIN_URL_def)

text \<open>
  Claim C1, as amended. \<open>login_to_dulms\<close> makes a single pass over the login page, with at
  most \<open>CAPTCHA_SOLVE_RETRIES\<close> passes of the CAPTCHA loop (none when that setting is not
  positive) and at most one call of the solving service in each; \<open>MAX_LOGIN_RETRIES\<close> is
  not read. So the number of solve attempts is at most
  \<open>MAX_LOGIN_RETRIES * CAPTCHA_SOLVE_RETRIES\<close> whenever \<open>MAX_LOGIN_RETRIES\<close> is at least 1
  and \<open>CAPTCHA_SOLVE_RETRIES\<close> is not negative, and when no pass succeeds the function
  returns \<open>False\<close>.
\<close>

theorem login_attempts_bounded:
  "attempts (login_to_dulms cfg lp) \<le> nat (CAPTCHA_SOLVE_RETRIES cfg)
   \<and> solver_calls (login_to_dulms cfg lp) \<le> attempts (login_to_dulms cfg lp)
   \<and> (1 \<le> MAX_LOGIN_RETRIES cfg \<and> 0 \<le> CAPTCHA_SOLVE_RETRIES cfg \<longrightarrow>
        int (attempts (login_to_dulms cfg lp)) \<le> MAX_LOGIN_RETRIES cfg * CAPTCHA_SOLVE_RETRIES cfg)
   \<and> ((\<forall>i. int i < CAPTCHA_SOLVE_RETRIES cfg \<longrightarrow> \<not> attempt_succeeds (attempt_page lp i)) \<longrightarrow>
        \<not> login_ok (login_to_dulms cfg lp))"
proof -
  let ?st0 = "\<lparr>login_ok = False, attempts = 0, solver_calls = 0\<rparr>"
  let ?n = "nat (CAPTCHA_SOLVE_RETRIES cfg)"
  have bound: "attempts (login_to_dulms cfg lp) \<le> ?n"
    using captcha_loop_attempts_le [of "attempt_page lp" ?n ?st0]
    by (simp add: login_to_dulms_def split: option.split)
  have calls: "solver_calls (login_to_dulms cfg lp) \<le> attempts (login_to_dulms cfg lp)"
    using captcha_loop_solver_le [of "attempt_page lp" ?n ?st0]
    by (simp add: login_to_dulms_def split: option.split)
  have prod: "int (attempts (login_to_dulms cfg lp)) \<le> MAX_LOGIN_RETRIES cfg * CAPTCHA_SOLVE_RETRIES cfg"
    if m: "1 \<le> MAX_LOGIN_RETRIES cfg" and c: "0 \<le> CAPTCHA_SOLVE_RETRIES cfg"
  proof -
    have "int (attempts (login_to_dulms cfg lp)) \<le> CAPTCHA_SOLVE_RETRIES cfg"
      using bound c by linarith
    also have "\<dots> = 1 * CAPTCHA_SOLVE_RETRIES cfg" by simp
    also have "\<dots> \<le> MAX_LOGIN_RETRIES cfg * CAPTCHA_SOLVE_RETRIES cfg"
      using m c by (rule mult_right_mono)
    finally show ?thesis .
  qed
  have fail: "\<not> login_ok (login_to_dulms cfg lp)"
    if "\<forall>i. int i < CAPTCHA_SOLVE_RETRIES cfg \<longrightarrow> \<not> attempt_succeeds (attempt_page lp i)"
  proof -
    have "\<forall>i. attempts ?st0 \<le> i \<and> i < attempts ?st0 + ?n \<longrightarrow> \<not> attempt_succeeds (attempt_page lp i)"
      using that by simp
    then have "\<not> login_ok (captcha_loop (attempt_page lp) ?n ?st0)"
      by (intro captcha_loop_no_success) simp_all
    then show ?thesis by (simp add: login_to_dulms_def split: option.split)
  qed
  show ?thesis using bound calls prod fail by blast
qed

theorem login_attempts_bounded_witness:
  "1 \<le> MAX_LOGIN_RETRIES default_settings \<and> 0 \<le> CAPTCHA_SOLVE_RETRIES default_settings
   \<and> attempts (login_to_dulms default_settings rejecting_login) = 3
   \<and> int (attempts (login_to_dulms default_settings rejecting_login))
        \<le> MAX_LOGIN_RETRIES default_settings * CAPTCHA_SOLVE_RETRIES default_settings
   \<and> \<not> login_ok (login_to_dulms default_settings rejecting_login)"
proof -
  have h: "\<forall>i. int i < CAPTCHA_SOLVE_RETRIES default_settings \<longrightarrow>
             \<not> attempt_succeeds (attempt_page rejecting_login i)"
    by (simp add: rejecting_login_def rejected_never_succeeds)
  have n: "attempts (login_to_dulms default_settings rejecting_login) = 3"
    by code_simp
  show ?thesis
    using login_attempts_bounded [of default_settings rejecting_login] h n
    by (simp add: default_settings_def)
qed

text \<open>
  The claim C1 as written fails when \<open>MAX_LOGIN_RETRIES\<close> is 0: with
  \<open>CAPTCHA_SOLVE_RETRIES = 3\<close> and a page that rejects every solution, three solve
  attempts are made, and the claimed bound is 0.
\<close>

theorem login_attempts_counterexample:
  "attempts (login_to_dulms no_retry_settings rejecting_login) = 3
   \<and> solver_calls (login_to_dulms no_retry_settings rejecting_login) = 3
   \<and> MAX_LOGIN_RETRIES no_retry_settings * CAPTCHA_SOLVE_RETRIES no_retry_settings = 0
   \<and> \<not> int (attempts (login_to_dulms no_retry_settings rejecting_login))
          \<le> MAX_LOGIN_RETRIES no_retry_settings * CAPTCHA_SOLVE_RETRIES no_retry_settings"
proof -
  have n: "attempts (login_to_dulms no_retry_settings rejecting_login) = 3"
    "solver_calls (login_to_dulms no_retry_settings rejecting_login) = 3"
    by code_simp+
  show ?thesis using n by (simp add: no_retry_settings_def)
qed

section \<open>Rows of a listing page\<close>

lemma scrape_rows_acc: "scrape_rows P u acc rs = acc @ scrape_rows P u [] rs"
proof (induction rs arbitrary: acc)
  case Nil show ?case by simp
next
  case (Cons r rs)
  show ?case
  proof (cases "row_item P u r")
    case None
    then show ?thesis using Cons.IH [of acc] by simp
  next
    case (Some it)
    then show ?thesis using Cons.IH [of "acc @ [it]"] Cons.IH [of "[it]"] by simp
  qed
qed

lemma scrape_rows_append:
  "scrape_rows P u [] (xs @ ys) = scrape_rows P u [] xs @ scrape_rows P u [] ys"
proof (induction xs)
  case Nil show ?case by simp
next
  case (Cons r xs)
  show ?case
  proof (cases "row_item P u r")
    case None
    then show ?thesis using Cons.IH by simp
  next
    case (Some it)
    then show ?thesis
      using Cons.IH scrape_rows_acc [of P u "[it]" "xs @ ys"] scrape_rows_acc [of P u "[it]" xs]
      by simp
  qed
qed

lemma scrape_rows_around:
  "scrape_rows P u [] (before @ r # after) =
     scrape_rows P u [] before @ (case row_item P u r of None \<Rightarrow> [] | Some it \<Rightarrow> [it])
       @ scrape_rows P u [] after"
proof -
  have "scrape_rows P u [] (r # after) =
          (case row_item P u r of None \<Rightarrow> [] | Some it \<Rightarrow> [it]) @ scrape_rows P u [] after"
  proof (cases "row_item P u r")
    case None
    then show ?thesis by simp
  next
    case (Some it)
    then show ?thesis using scrape_rows_acc [of P u "[it]" after] by simp
  qed
  then show ?thesis using scrape_rows_append [of P u before "r # after"] by simp
qed

lemma row_item_full:
  "6 \<le> length cells \<Longrightarrow>
   \<exists>it. row_item P u (Row cells) = Some it \<and> deadline it = strip (cell_text (cells ! 3))
        \<and> days_remaining it = P (strip (cell_text (cells ! 3)))"
  by (simp add: row_item_def Let_def split: option.split prod.split)

lemma row_examples:
  "length [text_cell ''7'', text_cell ''Draft''] < 6"
  "6 \<le> length reading_cells"
  "june_clock (strip (cell_text (reading_cells ! 3))) = None"
  "map days_remaining (scrape_rows june_clock ASSIGNMENTS_URL [] [essay_row]) = [Some 1]"
  "map days_remaining (scrape_rows june_clock ASSIGNMENTS_URL [] [project_row]) = [Some 4]"
  "listing_fault (assignments_page scenario_env) = None"
  "listing_table (assignments_page scenario_env) = Some (Row [] # tl five_assignments)"
  "map days_remaining (scrape_rows june_clock ASSIGNMENTS_URL [] (tl five_assignments)) =
     [Some 1, Some 19, Some 3, None, Some 4]"
  by code_simp+

lemma scenario_clock: "days_until (assignments_page scenario_env) = june_clock"
  by (simp add: scenario_env_def)

text \<open>
  Claim C8. In the loop over the rows of a listing, a row with fewer than six cells and
  a row whose extraction raises add nothing and leave the records of the rows before and
  after them as they are; a row with six cells or more adds exactly one record, whose
  \<open>days_remaining\<close> is what the date parser gives for its deadline text, so \<open>None\<close> when
  the text does not parse, again with the records of the other rows unchanged. Both
  scrape functions run this loop over the rows after the header.
\<close>

theorem rows_are_independent:
  "(length cells < 6 \<longrightarrow>
      scrape_rows P u [] (before @ Row cells # after) =
        scrape_rows P u [] before @ scrape_rows P u [] after)
   \<and> scrape_rows P u [] (before @ RowFault e # after) =
        scrape_rows P u [] before @ scrape_rows P u [] after
   \<and> (6 \<le> length cells \<longrightarrow>
        (\<exists>it. deadline it = strip (cell_text (cells ! 3))
            \<and> days_remaining it = P (strip (cell_text (cells ! 3)))
            \<and> scrape_rows P u [] (before @ Row cells # after) =
                 scrape_rows P u [] before @ [it] @ scrape_rows P u [] after))
   \<and> (listing_fault pg = None \<and> listing_table pg = Some (hdr # rows) \<longrightarrow>
        scrape_assignments pg = scrape_rows (days_until pg) ASSIGNMENTS_URL [] rows
        \<and> scrape_quizzes pg = scrape_rows (days_until pg) QUIZZES_URL [] rows)"
proof -
  have short: "scrape_rows P u [] (before @ Row cells # after) =
        scrape_rows P u [] before @ scrape_rows P u [] after" if "length cells < 6"
    using that scrape_rows_around [of P u before "Row cells" after] by (simp add: row_item_def)
  have fault: "scrape_rows P u [] (before @ RowFault e # after) =
        scrape_rows P u [] before @ scrape_rows P u [] after"
    using scrape_rows_around [of P u before "RowFault e" after] by (simp add: row_item_def)
  have full: "\<exists>it. deadline it = strip (cell_text (cells ! 3))
            \<and> days_remaining it = P (strip (cell_text (cells ! 3)))
            \<and> scrape_rows P u [] (before @ Row cells # after) =
                 scrape_rows P u [] before @ [it] @ scrape_rows P u [] after" if "6 \<le> length cells"
  proof -
    from row_item_full [OF that, of P u] obtain it where
      it: "row_item P u (Row cells) = Some it" "deadline it = strip (cell_text (cells ! 3))"
          "days_remaining it = P (strip (cell_text (cells ! 3)))" by blast
    have "scrape_rows P u [] (before @ Row cells # after) =
                 scrape_rows P u [] before @ [it] @ scrape_rows P u [] after"
      using scrape_rows_around [of P u before "Row cells" after] it(1) by simp
    with it(2,3) show ?thesis by blast
  qed
  have page: "scrape_assignments pg = scrape_rows (days_until pg) ASSIGNMENTS_URL [] rows
        \<and> scrape_quizzes pg = scrape_rows (days_until pg) QUIZZES_URL [] rows"
    if "listing_fault pg = None \<and> listing_table pg = Some (hdr # rows)"
    using that by (simp add: scrape_assignments_def scrape_quizzes_def scrape_listing_def)
  show ?thesis using short fault full page by blast
qed

theorem rows_are_independent_witness:
  "scrape_rows june_clock ASSIGNMENTS_URL [] ([essay_row] @ short_row # [project_row]) =
     scrape_rows june_clock ASSIGNMENTS_URL [] [essay_row] @
     scrape_rows june_clock ASSIGNMENTS_URL [] [project_row]
   \<and> scrape_rows june_clock ASSIGNMENTS_URL [] ([essay_row] @ RowFault ''stale element'' # [project_row]) =
     scrape_rows june_clock ASSIGNMENTS_URL [] [essay_row] @
     scrape_rows june_clock ASSIGNMENTS_URL [] [project_row]
   \<and> map days_remaining
        (scrape_rows june_clock ASSIGNMENTS_URL [] ([essay_row] @ Row reading_cells # [project_row])) =
      [Some 1, None, Some 4]
   \<and> map days_remaining (scrape_assignments (assignments_page scenario_env)) =
      [Some 1, Some 19, Some 3, None, Some 4]"
proof -
  note short =
    rows_are_independent [of "[text_cell ''7'', text_cell ''Draft'']" june_clock ASSIGNMENTS_URL
      "[essay_row]" "[project_row]" "''stale element''" "assignments_page scenario_env"
      "Row []" "tl five_assignments"]
  note full =
    rows_are_independent [of reading_cells june_clock ASSIGNMENTS_URL
      "[essay_row]" "[project_row]" "''stale element''" "assignments_page scenario_env"
      "Row []" "tl five_assignments"]
  have a: "scrape_rows june_clock ASSIGNMENTS_URL [] ([essay_row] @ short_row # [project_row]) =
     scrape_rows june_clock ASSIGNMENTS_URL [] [essay_row] @
     scrape_rows june_clock ASSIGNMENTS_URL [] [project_row]"
    using short row_examples(1) unfolding short_row_def by blast
  have b: "scrape_rows june_clock ASSIGNMENTS_URL [] ([essay_row] @ RowFault ''stale element'' # [project_row]) =
     scrape_rows june_clock ASSIGNMENTS_URL [] [essay_row] @
     scrape_rows june_clock ASSIGNMENTS_URL [] [project_row]"
    using short by blast
  from full row_examples(2) obtain it where
    it: "days_remaining it = june_clock (strip (cell_text (reading_cells ! 3)))"
        "scrape_rows june_clock ASSIGNMENTS_URL [] ([essay_row] @ Row reading_cells # [project_row]) =
           scrape_rows june_clock ASSIGNMENTS_URL [] [essay_row] @ [it] @
           scrape_rows june_clock ASSIGNMENTS_URL [] [project_row]"
    by blast
  have c: "map days_remaining
        (scrape_rows june_clock ASSIGNMENTS_URL [] ([essay_row] @ Row reading_cells # [project_row])) =
      [Some 1, None, Some 4]"
    using it row_examples(3,4,5) by simp
  have "scrape_assignments (assignments_page scenario_env) =
          scrape_rows june_clock ASSIGNMENTS_URL [] (tl five_assignments)"
    using full row_examples(6,7) scenario_clock by simp
  then have d: "map days_remaining (scrape_assignments (assignments_page scenario_env)) =
      [Some 1, Some 19, Some 3, None, Some 4]"
    using row_examples(8) by simp
  show ?thesis using a b c d by blast
qed

section \<open>The notification filter and the cards\<close>

text \<open>
  Claim C5. The filter keeps exactly the records whose \<open>days_remaining\<close> is not \<open>None\<close>
  and at most the threshold. With the default threshold 3, a record with 3 days is
  kept, one with 4 days is dropped, and one with \<open>None\<close> is dropped for every threshold.
\<close>

theorem upcoming_rule:
  "upcoming t xs = filter (\<lambda>a. \<exists>d. days_remaining a = Some d \<and> d \<le> t) xs
   \<and> DEADLINE_THRESHOLD_DAYS default_settings = 3
   \<and> upcoming 3 [a\<lparr>days_remaining := Some 3\<rparr>] = [a\<lparr>days_remaining := Some 3\<rparr>]
   \<and> upcoming 3 [a\<lparr>days_remaining := Some 4\<rparr>] = []
   \<and> upcoming t [a\<lparr>days_remaining := None\<rparr>] = []"
proof -
  have "(days_remaining a \<noteq> None \<and> the (days_remaining a) \<le> t) = (\<exists>d. days_remaining a = Some d \<and> d \<le> t)"
    for a :: item by (cases "days_remaining a") simp_all
  then have "upcoming t xs = filter (\<lambda>a. \<exists>d. days_remaining a = Some d \<and> d \<le> t) xs"
    by (simp add: upcoming_def)
  then show ?thesis by (simp add: upcoming_def default_settings_def)
qed

lemma card_color_Some:
  "days_remaining a = Some d \<Longrightarrow>
   card_color m a = Inr (if lower (status a) = m then GREEN else if d \<le> 1 then RED else YELLOW)"
  by (simp add: card_color_def Let_def)

lemma format_embeds_cards:
  "\<forall>a \<in> set xs. days_remaining a \<noteq> None \<Longrightarrow>
   format_embeds m acc xs =
     Inr (acc @ map (\<lambda>a. render_card a (if lower (status a) = m then GREEN
                                          else if the (days_remaining a) \<le> 1 then RED else YELLOW)) xs)"
proof (induction xs arbitrary: acc)
  case Nil show ?case by simp
next
  case (Cons a xs)
  from Cons.prems obtain d where d: "days_remaining a = Some d" by auto
  from Cons.prems have rest: "\<forall>a \<in> set xs. days_remaining a \<noteq> None" by simp
  show ?case
    using Cons.IH [OF rest] d by (simp add: card_color_Some [OF d])
qed

lemma lower_examples:
  "lower ''Submitted'' = ''submitted''" "lower ''Pending'' \<noteq> ''submitted''"
  by code_simp+

text \<open>
  Claim C6. For records that have a number of days remaining (every record the filter
  keeps), the card is green when the lower-cased status equals the done marker
  ("submitted" for assignments, "completed" for quizzes), whatever the days; otherwise
  red when at most one day remains and yellow when more than one day remains.
\<close>

theorem card_colors:
  assumes "\<forall>a \<in> set xs. days_remaining a \<noteq> None"
  shows "format_discord_embeds_for_assignments xs =
           Inr (map (\<lambda>a. render_card a (if lower (status a) = ''submitted'' then GREEN
                                          else if the (days_remaining a) \<le> 1 then RED else YELLOW)) xs)
       \<and> format_discord_embeds_for_quizzes xs =
           Inr (map (\<lambda>a. render_card a (if lower (status a) = ''completed'' then GREEN
                                          else if the (days_remaining a) \<le> 1 then RED else YELLOW)) xs)
       \<and> embed_color (render_card a c) = c
       \<and> RED = 0xFF0000 \<and> YELLOW = 0xFFFF00 \<and> GREEN = 0x00FF00"
  using format_embeds_cards [OF assms, of "''submitted''" "[]"]
        format_embeds_cards [OF assms, of "''completed''" "[]"]
  by (simp add: format_discord_embeds_for_assignments_def format_discord_embeds_for_quizzes_def
      render_card_def RED_def YELLOW_def GREEN_def)

theorem card_colors_witness:
  "map_sum id (map embed_color)
     (format_discord_embeds_for_assignments
        [essay (Some 0) ''Pending'', essay (Some 2) ''Pending'', essay (Some 5) ''Submitted''])
   = Inr [RED, YELLOW, GREEN]"
proof -
  have h: "\<forall>a \<in> set [essay (Some 0) ''Pending'', essay (Some 2) ''Pending'', essay (Some 5) ''Submitted''].
             days_remaining a \<noteq> None"
    by (simp add: essay_def)
  show ?thesis
    using card_colors [OF h] lower_examples
    by (simp add: essay_def)
qed

section \<open>The notification post\<close>

lemma posts_append: "posts (xs @ ys) = posts xs @ posts ys"
  by (induction xs rule: posts.induct) simp_all

lemma upcoming_days: "\<forall>a \<in> set (upcoming t xs). days_remaining a \<noteq> None"
  by (simp add: upcoming_def)

lemma posts_send:
  "webhook \<noteq> [] \<Longrightarrow> cards \<noteq> [] \<Longrightarrow>
   posts (fst (send_discord_webhook post webhook c cards)) = [(webhook, \<lparr>content = c, embeds = Some cards\<rparr>)]"
  by (simp add: send_discord_webhook_def Let_def split: post_outcome.split)

lemma posts_notify:
  assumes "webhook \<noteq> []"
  shows "posts (fst (notify_upcoming cfg post webhook result)) =
     (if upcoming (DEADLINE_THRESHOLD_DAYS cfg) (assignments result) = []
         \<and> upcoming (DEADLINE_THRESHOLD_DAYS cfg) (quizzes result) = [] then []
      else [(webhook,
             \<lparr>content = alert_content,
              embeds = Some
                (map (\<lambda>a. render_card a (if lower (status a) = ''submitted'' then GREEN
                                          else if the (days_remaining a) \<le> 1 then RED else YELLOW))
                   (upcoming (DEADLINE_THRESHOLD_DAYS cfg) (assignments result)) @
                 map (\<lambda>a. render_card a (if lower (status a) = ''completed'' then GREEN
                                          else if the (days_remaining a) \<le> 1 then RED else YELLOW))
                   (upcoming (DEADLINE_THRESHOLD_DAYS cfg) (quizzes result)))\<rparr>)])"
proof -
  let ?ua = "upcoming (DEADLINE_THRESHOLD_DAYS cfg) (assignments result)"
  let ?uq = "upcoming (DEADLINE_THRESHOLD_DAYS cfg) (quizzes result)"
  let ?ca = "map (\<lambda>a. render_card a (if lower (status a) = ''submitted'' then GREEN
                                          else if the (days_remaining a) \<le> 1 then RED else YELLOW)) ?ua"
  let ?cq = "map (\<lambda>a. render_card a (if lower (status a) = ''completed'' then GREEN
                                          else if the (days_remaining a) \<le> 1 then RED else YELLOW)) ?uq"
  have fa: "format_discord_embeds_for_assignments ?ua = Inr ?ca"
    using format_embeds_cards [OF upcoming_days, of "''submitted''" "[]"]
    by (simp add: format_discord_embeds_for_assignments_def)
  have fq: "format_discord_embeds_for_quizzes ?uq = Inr ?cq"
    using format_embeds_cards [OF upcoming_days, of "''completed''" "[]"]
    by (simp add: format_discord_embeds_for_quizzes_def)
  show ?thesis
  proof (cases "?ua = [] \<and> ?uq = []")
    case True
    then show ?thesis by (simp add: notify_upcoming_def Let_def)
  next
    case False
    then have ne: "?ca @ ?cq \<noteq> []" by simp
    have "notify_upcoming cfg post webhook result =
            (case send_discord_webhook post webhook alert_content (?ca @ ?cq) of
               (effs, Inl e) \<Rightarrow> (effs, Some e) | (effs, Inr sent) \<Rightarrow> (effs, None))"
      using False fa fq by (simp add: notify_upcoming_def Let_def del: map_append)
    then have "fst (notify_upcoming cfg post webhook result) =
            fst (send_discord_webhook post webhook alert_content (?ca @ ?cq))"
      by (simp split: prod.split sum.split)
    then show ?thesis
      using False posts_send [OF assms ne, of post alert_content] by simp
  qed
qed

lemma scenario_lists:
  "upcoming (DEADLINE_THRESHOLD_DAYS default_settings) (scrape_assignments (assignments_page scenario_env)) =
     [\<lparr>item_id = ''1'', title = ''Essay'', course = ''ENG101'', deadline = ''02/06/2025'',
       days_remaining = Some 1, status = ''Pending'', url = Some ASSIGNMENTS_URL\<rparr>,
      \<lparr>item_id = ''3'', title = ''Problem set'', course = ''MAT201'', deadline = ''04/06/2025'',
       days_remaining = Some 3, status = ''Submitted'', url = Some ASSIGNMENTS_URL\<rparr>]"
  "upcoming (DEADLINE_THRESHOLD_DAYS default_settings) (scrape_quizzes (quizzes_page scenario_env)) = []"
  "length (scrape_assignments (assignments_page scenario_env)) = 5"
  "login_ok (login_to_dulms default_settings (login scenario_env))"
  "driver_init scenario_env = None"
  "hook \<noteq> []"
  by code_simp+

text \<open>
  Claim C7. In a run that gets a driver, logs in and has a non-empty webhook address:
  when no scraped assignment and no scraped quiz passes the filter, no post is made;
  otherwise exactly one post is made, to the webhook, whose cards are one per kept
  assignment followed by one per kept quiz, in the order scraped.
\<close>

theorem one_post_per_run:
  assumes "driver_init env = None" and "login_ok (login_to_dulms cfg (login env))"
    and "webhook \<noteq> []"
  shows "posts (snd (run_dulms_scraper cfg env (Some webhook) now)) =
     (if upcoming (DEADLINE_THRESHOLD_DAYS cfg) (scrape_assignments (assignments_page env)) = []
         \<and> upcoming (DEADLINE_THRESHOLD_DAYS cfg) (scrape_quizzes (quizzes_page env)) = [] then []
      else [(webhook,
             \<lparr>content = alert_content,
              embeds = Some
                (map (\<lambda>a. render_card a (if lower (status a) = ''submitted'' then GREEN
                                          else if the (days_remaining a) \<le> 1 then RED else YELLOW))
                   (upcoming (DEADLINE_THRESHOLD_DAYS cfg) (scrape_assignments (assignments_page env))) @
                 map (\<lambda>a. render_card a (if lower (status a) = ''completed'' then GREEN
                                          else if the (days_remaining a) \<le> 1 then RED else YELLOW))
                   (upcoming (DEADLINE_THRESHOLD_DAYS cfg) (scrape_quizzes (quizzes_page env))))\<rparr>)])"
proof -
  let ?r = "\<lparr>assignments = scrape_assignments (assignments_page env),
             quizzes = scrape_quizzes (quizzes_page env), timestamp = now, success = True,
             message = ''Scraping completed successfully''\<rparr>"
  have "posts (snd (run_dulms_scraper cfg env (Some webhook) now)) =
          posts (fst (notify_upcoming cfg (http_post env) webhook ?r))"
    using assms
    by (simp add: run_dulms_scraper_def scraper_try_def Let_def posts_append
        split: prod.split option.split)
  then show ?thesis using posts_notify [OF assms(3), of cfg "http_post env" ?r] by simp
qed

theorem one_post_per_run_witness:
  "length (scrape_assignments (assignments_page scenario_env)) = 5
   \<and> length (upcoming (DEADLINE_THRESHOLD_DAYS default_settings)
               (scrape_assignments (assignments_page scenario_env))) = 2
   \<and> upcoming (DEADLINE_THRESHOLD_DAYS default_settings) (scrape_quizzes (quizzes_page scenario_env)) = []
   \<and> map (\<lambda>p. (fst p, map_option (map embed_title) (embeds (snd p))))
        (posts (snd (run_dulms_scraper default_settings scenario_env (Some hook) ''now'')))
      = [(hook, Some [''Essay'', ''Problem set''])]"
  using one_post_per_run [OF scenario_lists(5) scenario_lists(4) scenario_lists(6), of "''now''"]
    scenario_lists(1,2,3)
  by (simp add: render_card_def)

section \<open>Faults of a scraper run\<close>

lemma send_no_quit: "DriverQuit \<notin> set (fst (send_discord_webhook post webhook c cards))"
  by (simp add: send_discord_webhook_def Let_def split: post_outcome.split)

lemma notify_no_quit: "DriverQuit \<notin> set (fst (notify_upcoming cfg post webhook result))"
proof -
  have "fst (case send_discord_webhook post webhook c cards of
               (effs, Inl e) \<Rightarrow> (effs, Some e) | (effs, Inr sent) \<Rightarrow> (effs, None))
          = fst (send_discord_webhook post webhook c cards)" for c cards
    by (simp split: prod.split sum.split)
  then show ?thesis
    using send_no_quit [of post webhook]
    by (simp add: notify_upcoming_def Let_def split: sum.split)
qed

lemma scraper_try_opened:
  assumes "driver_init env = None"
  shows "\<exists>effs result raised.
           scraper_try cfg env webhook r0 = (True, effs, result, raised)
           \<and> DriverQuit \<notin> set effs \<and> LoginCall \<in> set effs"
proof (cases "login_ok (login_to_dulms cfg (login env))")
  case False
  then show ?thesis using assms by (simp add: scraper_try_def)
next
  case True
  show ?thesis
  proof (cases "\<exists>w. webhook = Some w \<and> w \<noteq> []")
    case False
    then show ?thesis using assms True
      by (cases webhook) (simp_all add: scraper_try_def Let_def)
  next
    case yes: True
    then obtain w where w: "webhook = Some w" "w \<noteq> []" by blast
    let ?r = "r0\<lparr>assignments := scrape_assignments (assignments_page env),
                 quizzes := scrape_quizzes (quizzes_page env),
                 success := True, message := ''Scraping completed successfully''\<rparr>"
    obtain sent raised where n: "notify_upcoming cfg (http_post env) w ?r = (sent, raised)"
      by (cases "notify_upcoming cfg (http_post env) w ?r") blast
    have "DriverQuit \<notin> set sent"
      using notify_no_quit [of cfg "http_post env" w ?r] n by simp
    then show ?thesis using assms True w n
      by (simp add: scraper_try_def Let_def)
  qed
qed

lemma fault_examples:
  "driver_init no_driver_env = Some ''WebDriver executable not found at: msedgedriver.exe''"
  "snd (snd (snd (scraper_try default_settings broken_post_env (Some hook)
       \<lparr>assignments = [], quizzes = [], timestamp = ''now'', success = False, message = []\<rparr>))) = Some ''boom''"
  "driver_init broken_post_env = None"
  "driver_quit broken_post_env = Some ''session gone''"
  by code_simp+

text \<open>
  Claim C4. When \<open>initialize_driver\<close> raises, the run returns the failure result whose
  message carries the exception text, and its only effect is the attempt to open the
  driver: no login is tried. Whenever an exception leaves the \<open>try\<close> block, the returned
  result has \<open>success = False\<close> and that message. When a driver was obtained, the
  effects end with exactly one \<open>driver.quit()\<close>, followed only by the log line of a
  failure to quit, which is not raised further.
\<close>

theorem run_dulms_scraper_faults:
  "(driver_init env = Some e \<longrightarrow>
      run_dulms_scraper cfg env webhook now =
        (\<lparr>assignments = [], quizzes = [], timestamp = now, success = False,
          message = ''Scraper failed with error: '' @ e\<rparr>, [InitDriver]))
   \<and> (snd (snd (snd (scraper_try cfg env webhook
           \<lparr>assignments = [], quizzes = [], timestamp = now, success = False, message = []\<rparr>))) = Some e \<longrightarrow>
        success (fst (run_dulms_scraper cfg env webhook now)) = False
        \<and> message (fst (run_dulms_scraper cfg env webhook now)) = ''Scraper failed with error: '' @ e)
   \<and> (driver_init env = None \<longrightarrow>
        (\<exists>effs. DriverQuit \<notin> set effs \<and> LoginCall \<in> set effs
           \<and> snd (run_dulms_scraper cfg env webhook now) =
               effs @ DriverQuit #
                 (case driver_quit env of None \<Rightarrow> []
                  | Some q \<Rightarrow> [LogError (''Error closing WebDriver: '' @ q)])))"
proof -
  let ?r0 = "\<lparr>assignments = [], quizzes = [], timestamp = now, success = False, message = []\<rparr>"
  have init: "run_dulms_scraper cfg env webhook now =
        (\<lparr>assignments = [], quizzes = [], timestamp = now, success = False,
          message = ''Scraper failed with error: '' @ e\<rparr>, [InitDriver])"
    if "driver_init env = Some e"
    using that by (simp add: run_dulms_scraper_def scraper_try_def)
  have conv: "success (fst (run_dulms_scraper cfg env webhook now)) = False
        \<and> message (fst (run_dulms_scraper cfg env webhook now)) = ''Scraper failed with error: '' @ e"
    if "snd (snd (snd (scraper_try cfg env webhook ?r0))) = Some e"
  proof -
    obtain opened effs result raised where
      t: "scraper_try cfg env webhook ?r0 = (opened, effs, result, raised)"
      by (cases "scraper_try cfg env webhook ?r0") auto
    with that have "raised = Some e" by simp
    with t show ?thesis by (simp add: run_dulms_scraper_def Let_def)
  qed
  have quit: "\<exists>effs. DriverQuit \<notin> set effs \<and> LoginCall \<in> set effs
           \<and> snd (run_dulms_scraper cfg env webhook now) =
               effs @ DriverQuit #
                 (case driver_quit env of None \<Rightarrow> []
                  | Some q \<Rightarrow> [LogError (''Error closing WebDriver: '' @ q)])"
    if "driver_init env = None"
  proof -
    from scraper_try_opened [OF that, of cfg webhook ?r0] obtain effs result raised where
      t: "scraper_try cfg env webhook ?r0 = (True, effs, result, raised)"
         "DriverQuit \<notin> set effs" "LoginCall \<in> set effs" by blast
    have "snd (run_dulms_scraper cfg env webhook now) =
               effs @ DriverQuit #
                 (case driver_quit env of None \<Rightarrow> []
                  | Some q \<Rightarrow> [LogError (''Error closing WebDriver: '' @ q)])"
      using t(1) by (simp add: run_dulms_scraper_def Let_def split: option.split)
    with t(2,3) show ?thesis by blast
  qed
  show ?thesis using init conv quit by blast
qed

theorem run_dulms_scraper_faults_witness:
  "run_dulms_scraper default_settings no_driver_env (Some hook) ''now'' =
     (\<lparr>assignments = [], quizzes = [], timestamp = ''now'', success = False,
       message = ''Scraper failed with error: WebDriver executable not found at: msedgedriver.exe''\<rparr>,
      [InitDriver])
   \<and> success (fst (run_dulms_scraper default_settings broken_post_env (Some hook) ''now'')) = False
   \<and> message (fst (run_dulms_scraper default_settings broken_post_env (Some hook) ''now'')) =
       ''Scraper failed with error: boom''
   \<and> count_list (snd (run_dulms_scraper default_settings broken_post_env (Some hook) ''now'')) DriverQuit = 1
   \<and> last (snd (run_dulms_scraper default_settings broken_post_env (Some hook) ''now'')) =
       LogError ''Error closing WebDriver: session gone''"
proof -
  note nd =
    run_dulms_scraper_faults [of no_driver_env
      "''WebDriver executable not found at: msedgedriver.exe''" default_settings "Some hook" "''now''"]
  note bp =
    run_dulms_scraper_faults [of broken_post_env "''boom''" default_settings "Some hook" "''now''"]
  have a: "run_dulms_scraper default_settings no_driver_env (Some hook) ''now'' =
     (\<lparr>assignments = [], quizzes = [], timestamp = ''now'', success = False,
       message = ''Scraper failed with error: WebDriver executable not found at: msedgedriver.exe''\<rparr>,
      [InitDriver])"
    using nd fault_examples(1) by simp
  have b: "success (fst (run_dulms_scraper default_settings broken_post_env (Some hook) ''now'')) = False
     \<and> message (fst (run_dulms_scraper default_settings broken_post_env (Some hook) ''now'')) =
       ''Scraper failed with error: boom''"
    using bp fault_examples(2) by simp
  from bp fault_examples(3,4) obtain effs where
    e: "DriverQuit \<notin> set effs"
       "snd (run_dulms_scraper default_settings broken_post_env (Some hook) ''now'') =
          effs @ [DriverQuit, LogError ''Error closing WebDriver: session gone'']"
    by auto
  have c: "count_list (snd (run_dulms_scraper default_settings broken_post_env (Some hook) ''now'')) DriverQuit = 1
     \<and> last (snd (run_dulms_scraper default_settings broken_post_env (Some hook) ''now'')) =
       LogError ''Error closing WebDriver: session gone''"
    using e by (simp add: count_list_0_iff)
  show ?thesis using a b c by blast
qed

end
